theory Spec2Isabelle
  imports Main "HOL-Library.Word" "HOL-Library.Monad_Syntax"
begin

section \<open>A paravirtualised crypto device: guest character device and host backend\<close>

text \<open>
  The guest driver (\<^verbatim>\<open>crypto-chrdev.c\<close>) packs every file operation into an ordered list
  of scatter-gather regions, hands it to a virtqueue and spins until the host has given
  it back. The host backend (\<^verbatim>\<open>virtio-cryptodev.c\<close>) pops the descriptor set, addresses
  its regions by position, calls the real crypto device and pushes the set back.

  Both halves are embedded here over one typed view of the memory they share. The
  virtqueue infrastructure, the real crypto device and the caller's address space are
  external; they appear as explicit state or as parameters.
\<close>

type_synonym u8 = "8 word"
type_synonym u32 = "32 word"

definition ENOMEM :: int where "ENOMEM = 12"
definition ENODEV :: int where "ENODEV = 19"
definition EINVAL :: int where "EINVAL = 22"

definition MSG_LEN :: nat where "MSG_LEN = 100"

subsection \<open>The memory the two sides share\<close>

text \<open>
  The objects of the guest kernel that a scatterlist of the driver can point at, named
  after the driver's variables: \<^verbatim>\<open>syscall_type\<close>, \<^verbatim>\<open>&crof->host_fd\<close>, \<^verbatim>\<open>&cmd\<close>,
  \<^verbatim>\<open>output_msg\<close>, \<^verbatim>\<open>input_msg\<close>, \<^verbatim>\<open>&copied_session\<close>, \<^verbatim>\<open>session_key\<close> and
  \<^verbatim>\<open>&copied_crypt\<close>.
\<close>

datatype buffer =
  Syscall_type | Host_fd | Cmd | Output_msg | Input_msg
  | Copied_session | Session_key | Copied_crypt

text \<open>
  A pointer stored inside a descriptor: an address of the caller's address space, or
  the address of a shared region (what the host patches in).
\<close>

datatype ptr = User nat | Region buffer

text \<open>
  Modelled from the spec: \<^verbatim>\<open>struct session_op\<close> and \<^verbatim>\<open>struct crypt_op\<close> are declared in
  \<^verbatim>\<open>cryptodev.h\<close>, which is not among the sources. The session record carries the
  length-prefixed key material and the session identifier the host assigns; the crypt
  record carries the input buffer, the output buffer and the initialisation vector.
  The fields kept are the ones the sources read or write (\<^verbatim>\<open>keylen\<close>, \<^verbatim>\<open>key\<close>, \<^verbatim>\<open>src\<close>,
  \<^verbatim>\<open>dst\<close>, \<^verbatim>\<open>iv\<close>) and the session identifier.
\<close>

record session_op =
  keylen :: u32
  key :: ptr
  ses :: u32

record crypt_op =
  src :: ptr
  dst :: ptr
  iv :: ptr

record guest_mem =
  mem_syscall_type :: u32
  mem_host_fd :: int
  mem_cmd :: u32
  mem_output_msg :: "u8 list"
  mem_input_msg :: "u8 list"
  mem_copied_session :: session_op
  mem_session_key :: "u8 list"
  mem_copied_crypt :: crypt_op

subsection \<open>Constants of headers that are not among the sources\<close>

text \<open>
  \<^verbatim>\<open>crypto.h\<close> (guest), \<^verbatim>\<open>virtio-cryptodev.h\<close> (host) and \<^verbatim>\<open>cryptodev.h\<close> (the real
  device's interface) are included by the sources but are not part of them, so the
  numbers they define are parameters of the model: the system-call tags, which guest
  and host name through different macros, the three command numbers, and the size of
  \<^verbatim>\<open>struct session_op\<close> with the offsets of the pointer fields the host assigns
  (\<^verbatim>\<open>key\<close> in \<^verbatim>\<open>struct session_op\<close>; \<^verbatim>\<open>src\<close>, \<^verbatim>\<open>dst\<close> and \<^verbatim>\<open>iv\<close> in \<^verbatim>\<open>struct crypt_op\<close>).
  With them go the two object representations the C sources leave to the platform:
  \<open>int_repr\<close>, the bytes of an \<^verbatim>\<open>int\<close> in memory order, and \<open>ptr_repr\<close>, the bytes of a
  pointer.
\<close>

record headers =
  VIRTIO_CRYPTODEV_SYSCALL_OPEN :: u32
  VIRTIO_CRYPTODEV_SYSCALL_CLOSE :: u32
  VIRTIO_CRYPTODEV_SYSCALL_IOCTL :: u32
  VIRTIO_CRYPTODEV_SYSCALL_TYPE_OPEN :: u32
  VIRTIO_CRYPTODEV_SYSCALL_TYPE_CLOSE :: u32
  VIRTIO_CRYPTODEV_SYSCALL_TYPE_IOCTL :: u32
  CIOCGSESSION :: u32
  CIOCFSESSION :: u32
  CIOCCRYPT :: u32
  sizeof_session_op :: nat
  offsetof_key :: nat
  offsetof_src :: nat
  offsetof_dst :: nat
  offsetof_iv :: nat
  int_repr :: "int \<Rightarrow> u8 list"
  ptr_repr :: "ptr \<Rightarrow> u8 list"

subsection \<open>Access to the shared memory\<close>

text \<open>
  The host reaches the shared memory through \<^verbatim>\<open>iov_base\<close> pointers cast to a C type,
  and stores through whichever pointer the descriptor set holds at the index it reads.
  \<^verbatim>\<open>int\<close> and \<^verbatim>\<open>unsigned int\<close> have one size and representation, so either is read and
  written over the other. A store into a byte buffer (\<^verbatim>\<open>output_msg\<close>, \<^verbatim>\<open>input_msg\<close>,
  \<^verbatim>\<open>session_key\<close>) replaces the bytes at the offset of the stored object by the object's
  representation when they lie inside the buffer; past its end the store is undefined
  in C (\<open>None\<close>). A structure field is assigned in the structure itself.

  What else stays undefined (\<open>None\<close>) is an access whose effect depends on the rest of
  the layout of the structures of \<^verbatim>\<open>cryptodev.h\<close>: a word read out of a byte buffer or a
  structure, a word stored over a structure, and a structure field stored into the
  other structure or into a four-byte object.
\<close>

definition store_at :: "nat \<Rightarrow> u8 list \<Rightarrow> u8 list \<Rightarrow> u8 list option" where
  "store_at off bs buf =
     (if off + length bs \<le> length buf
      then Some (take off buf @ bs @ drop (off + length bs) buf) else None)"

fun store_bytes :: "buffer \<Rightarrow> nat \<Rightarrow> u8 list \<Rightarrow> guest_mem \<Rightarrow> guest_mem option" where
  "store_bytes Output_msg off bs m =
     map_option (\<lambda>buf. m\<lparr>mem_output_msg := buf\<rparr>) (store_at off bs (mem_output_msg m))"
| "store_bytes Input_msg off bs m =
     map_option (\<lambda>buf. m\<lparr>mem_input_msg := buf\<rparr>) (store_at off bs (mem_input_msg m))"
| "store_bytes Session_key off bs m =
     map_option (\<lambda>buf. m\<lparr>mem_session_key := buf\<rparr>) (store_at off bs (mem_session_key m))"
| "store_bytes _ off bs m = None"

fun load_uint :: "buffer \<Rightarrow> guest_mem \<Rightarrow> u32 option" where
  "load_uint Syscall_type m = Some (mem_syscall_type m)"
| "load_uint Cmd m = Some (mem_cmd m)"
| "load_uint Host_fd m = Some (word_of_int (mem_host_fd m))"
| "load_uint _ m = None"

fun load_int :: "buffer \<Rightarrow> guest_mem \<Rightarrow> int option" where
  "load_int Host_fd m = Some (mem_host_fd m)"
| "load_int Syscall_type m = Some (sint (mem_syscall_type m))"
| "load_int Cmd m = Some (sint (mem_cmd m))"
| "load_int _ m = None"

text \<open>\<^verbatim>\<open>*p = v\<close> for an \<^verbatim>\<open>int *p\<close>.\<close>

fun store_int :: "headers \<Rightarrow> buffer \<Rightarrow> int \<Rightarrow> guest_mem \<Rightarrow> guest_mem option" where
  "store_int k Host_fd v m = Some (m\<lparr>mem_host_fd := v\<rparr>)"
| "store_int k Syscall_type v m = Some (m\<lparr>mem_syscall_type := word_of_int v\<rparr>)"
| "store_int k Cmd v m = Some (m\<lparr>mem_cmd := word_of_int v\<rparr>)"
| "store_int k b v m = store_bytes b 0 (int_repr k v) m"

text \<open>\<^verbatim>\<open>sess->key = key\<close> for a \<^verbatim>\<open>struct session_op *sess\<close>.\<close>

fun store_session_key :: "headers \<Rightarrow> buffer \<Rightarrow> ptr \<Rightarrow> guest_mem \<Rightarrow> guest_mem option" where
  "store_session_key k Copied_session p m =
     Some (m\<lparr>mem_copied_session := (mem_copied_session m)\<lparr>key := p\<rparr>\<rparr>)"
| "store_session_key k b p m = store_bytes b (offsetof_key k) (ptr_repr k p) m"

text \<open>
  \<^verbatim>\<open>crypt->src = src; crypt->dst = dst; crypt->iv = iv;\<close> for a
  \<^verbatim>\<open>struct crypt_op *crypt\<close>.
\<close>

fun store_crypt_ptrs ::
  "headers \<Rightarrow> buffer \<Rightarrow> ptr \<Rightarrow> ptr \<Rightarrow> ptr \<Rightarrow> guest_mem \<Rightarrow> guest_mem option" where
  "store_crypt_ptrs k Copied_crypt s d i m =
     Some (m\<lparr>mem_copied_crypt := (mem_copied_crypt m)\<lparr>src := s, dst := d, iv := i\<rparr>\<rparr>)"
| "store_crypt_ptrs k b s d i m =
     do {
       m1 \<leftarrow> store_bytes b (offsetof_src k) (ptr_repr k s) m;
       m2 \<leftarrow> store_bytes b (offsetof_dst k) (ptr_repr k d) m1;
       store_bytes b (offsetof_iv k) (ptr_repr k i) m2
     }"

subsection \<open>The transport channel\<close>

text \<open>
  A descriptor set as the host sees it (\<^verbatim>\<open>VirtQueueElement\<close>): the \<^verbatim>\<open>iov_base\<close> pointers
  of its guest-written regions (\<^verbatim>\<open>out_sg\<close>) and of its host-writable regions
  (\<^verbatim>\<open>in_sg\<close>). The dispatcher never reads a region's length.
\<close>

record VirtQueueElement =
  out_sg :: "buffer option list"
  in_sg :: "buffer option list"

text \<open>
  \<^verbatim>\<open>elem->in_sg[i].iov_base\<close>: indexing past the end of the array is undefined in C.
\<close>

definition iov_base :: "buffer option list \<Rightarrow> nat \<Rightarrow> buffer option" where
  "iov_base sg i = (if i < length sg then sg ! i else None)"

record virtqueue =
  avail :: "VirtQueueElement list"
  used :: "VirtQueueElement list"

text \<open>
  The guest's array \<^verbatim>\<open>sgs\<close> with its two counters. \<^verbatim>\<open>sgs[num_out++] = &x_sg\<close> and
  \<^verbatim>\<open>sgs[num_out + num_in++] = &x_sg\<close> store at the index the source computes.
\<close>

record sg_state =
  sgs :: "buffer option list"
  num_out :: nat
  num_in :: nat

definition sg_init :: "nat \<Rightarrow> sg_state" where
  "sg_init n = \<lparr>sgs = replicate n None, num_out = 0, num_in = 0\<rparr>"

definition sg_out :: "buffer \<Rightarrow> sg_state \<Rightarrow> sg_state" where
  "sg_out b s = s\<lparr>sgs := (sgs s)[num_out s := Some b], num_out := num_out s + 1\<rparr>"

definition sg_in :: "buffer \<Rightarrow> sg_state \<Rightarrow> sg_state" where
  "sg_in b s = s\<lparr>sgs := (sgs s)[num_out s + num_in s := Some b], num_in := num_in s + 1\<rparr>"

text \<open>
  \<^verbatim>\<open>virtqueue_add_sgs(vq, sgs, num_out, num_in, ...)\<close> exposes the first \<^verbatim>\<open>num_out\<close>
  entries as readable and the next \<^verbatim>\<open>num_in\<close> entries as writable. The ring has 128
  slots and the driver keeps one request in flight, so adding is modelled as succeeding
  (the driver ignores the call's result).
\<close>

definition element_of :: "sg_state \<Rightarrow> VirtQueueElement" where
  "element_of s =
     \<lparr>out_sg = take (num_out s) (sgs s), in_sg = take (num_in s) (drop (num_out s) (sgs s))\<rparr>"

definition virtqueue_add_sgs :: "virtqueue \<Rightarrow> sg_state \<Rightarrow> virtqueue" where
  "virtqueue_add_sgs q s = q\<lparr>avail := avail q @ [element_of s]\<rparr>"

definition virtqueue_pop :: "virtqueue \<Rightarrow> (VirtQueueElement \<times> virtqueue) option" where
  "virtqueue_pop q = (case avail q of [] \<Rightarrow> None | e # es \<Rightarrow> Some (e, q\<lparr>avail := es\<rparr>))"

definition virtqueue_push :: "virtqueue \<Rightarrow> VirtQueueElement \<Rightarrow> virtqueue" where
  "virtqueue_push q e = q\<lparr>used := used q @ [e]\<rparr>"

definition virtqueue_get_buf :: "virtqueue \<Rightarrow> (VirtQueueElement \<times> virtqueue) option" where
  "virtqueue_get_buf q = (case used q of [] \<Rightarrow> None | e # es \<Rightarrow> Some (e, q\<lparr>used := es\<rparr>))"

text \<open>
  The device side of the queue: what runs between the guest's kick and its first poll.
  \<open>None\<close> stands for a device whose behaviour on the request is undefined.
\<close>

type_synonym device = "virtqueue \<times> guest_mem \<Rightarrow> (virtqueue \<times> guest_mem) option"

definition virtqueue_kick :: "device \<Rightarrow> virtqueue \<times> guest_mem \<Rightarrow> (virtqueue \<times> guest_mem) option" where
  "virtqueue_kick dev qm = dev qm"

text \<open>
  \<^verbatim>\<open>while (virtqueue_get_buf(vq, &len) == NULL);\<close> The loop has no bound: when no
  completed descriptor set ever appears it does not return (\<open>None\<close>).
\<close>

partial_function (option) poll_get_buf :: "virtqueue \<Rightarrow> virtqueue option" where
  "poll_get_buf q =
     (case virtqueue_get_buf q of None \<Rightarrow> poll_get_buf q | Some (e, q') \<Rightarrow> Some q')"

declare poll_get_buf.simps [code]

text \<open>
  The critical section the three file operations share: add, kick, spin
  (the spin lock does nothing in a sequential run).
\<close>

definition sync_call :: "device \<Rightarrow> virtqueue \<Rightarrow> sg_state \<Rightarrow> guest_mem \<Rightarrow> (virtqueue \<times> guest_mem) option" where
  "sync_call dev q s m =
     (case virtqueue_kick dev (virtqueue_add_sgs q s, m) of
        None \<Rightarrow> None
      | Some (q1, m1) \<Rightarrow> (case poll_get_buf q1 of None \<Rightarrow> None | Some q2 \<Rightarrow> Some (q2, m1)))"

subsection \<open>The guest driver\<close>

record crypto_device =
  minor :: u32

record crypto_open_file =
  crdev :: crypto_device
  host_fd :: int

text \<open>
  The guest kernel as one open file sees it: the device registry \<^verbatim>\<open>crdrvdata.devs\<close>, the
  \<^verbatim>\<open>kzalloc\<close>ed open-file contexts, \<^verbatim>\<open>filp->private_data\<close>, the device's virtqueue and
  the memory the call's buffers live in.
\<close>

record guest_state =
  devs :: "crypto_device list"
  heap :: "nat \<rightharpoonup> crypto_open_file"
  private_data :: "nat option"
  vq :: virtqueue
  mem :: guest_mem

fun get_crypto_dev_by_minor :: "crypto_device list \<Rightarrow> u32 \<Rightarrow> crypto_device option" where
  "get_crypto_dev_by_minor [] n = None"
| "get_crypto_dev_by_minor (d # ds) n =
     (if minor d = n then Some d else get_crypto_dev_by_minor ds n)"

text \<open>
  \<^verbatim>\<open>crypto_chrdev_open\<close>. \<open>nonseekable\<close> is what \<^verbatim>\<open>nonseekable_open\<close> returns and \<open>kz\<close> what
  \<^verbatim>\<open>kzalloc\<close> returns for the context (\<open>None\<close> for \<^verbatim>\<open>NULL\<close>). The region \<^verbatim>\<open>host_fd_sg\<close>
  aliases the context's field, so the field is read back from the shared memory once
  the call has completed. The result \<open>None\<close> of a file operation is a call that does
  not return. The fixed-size buffers (\<^verbatim>\<open>syscall_type\<close> and the two messages) are
  taken to exist.
\<close>

definition open_request :: "headers \<Rightarrow> guest_mem \<Rightarrow> sg_state \<times> guest_mem" where
  "open_request k m =
     (sg_in Host_fd (sg_out Syscall_type (sg_init 2)),
      m\<lparr>mem_syscall_type := VIRTIO_CRYPTODEV_SYSCALL_OPEN k, mem_host_fd := - 1\<rparr>)"

definition crypto_chrdev_open ::
  "headers \<Rightarrow> device \<Rightarrow> int \<Rightarrow> nat option \<Rightarrow> u32 \<Rightarrow> guest_state \<Rightarrow> (int \<times> guest_state) option" where
  "crypto_chrdev_open k dev nonseekable kz iminor s =
     (if nonseekable < 0 then Some (nonseekable, s)
      else case get_crypto_dev_by_minor (devs s) iminor of
        None \<Rightarrow> Some (- ENODEV, s)
      | Some d \<Rightarrow>
          (case kz of
             None \<Rightarrow> Some (- ENOMEM, s)
           | Some p \<Rightarrow>
               (case open_request k (mem s) of (sg, m) \<Rightarrow>
                 (case sync_call dev (vq s) sg m of
                    None \<Rightarrow> None
                  | Some (q', m') \<Rightarrow>
                      Some (if mem_host_fd m' < 0 then - ENODEV else nonseekable,
                            s\<lparr>heap := (heap s)(p \<mapsto> \<lparr>crdev = d, host_fd = mem_host_fd m'\<rparr>),
                              private_data := Some p, vq := q', mem := m'\<rparr>)))))"

text \<open>
  \<^verbatim>\<open>crypto_chrdev_release\<close>. A file without a live context is not released by the kernel;
  dereferencing it is not modelled (\<open>None\<close>).
\<close>

definition release_request :: "headers \<Rightarrow> crypto_open_file \<Rightarrow> guest_mem \<Rightarrow> sg_state \<times> guest_mem" where
  "release_request k crof m =
     (sg_out Host_fd (sg_out Syscall_type (sg_init 2)),
      m\<lparr>mem_syscall_type := VIRTIO_CRYPTODEV_SYSCALL_CLOSE k, mem_host_fd := host_fd crof\<rparr>)"

definition crypto_chrdev_release ::
  "headers \<Rightarrow> device \<Rightarrow> guest_state \<Rightarrow> (int \<times> guest_state) option" where
  "crypto_chrdev_release k dev s =
     (case private_data s of
        None \<Rightarrow> None
      | Some p \<Rightarrow>
          (case heap s p of
             None \<Rightarrow> None
           | Some crof \<Rightarrow>
               (case release_request k crof (mem s) of (sg, m) \<Rightarrow>
                 (case sync_call dev (vq s) sg m of
                    None \<Rightarrow> None
                  | Some (q', m') \<Rightarrow>
                      Some (0, s\<lparr>heap := (heap s)(p := None), vq := q', mem := m'\<rparr>)))))"

text \<open>
  The caller's address space: the session descriptors and the byte buffers mapped at
  its addresses. \<^verbatim>\<open>copy_from_user(to, from, n)\<close> yields the number of bytes it could not
  copy together with the bytes it copied.
\<close>

record user_space =
  session_at :: "nat \<rightharpoonup> session_op"
  bytes_at :: "nat \<rightharpoonup> u8 list"

definition copy_from_user :: "user_space \<Rightarrow> ptr \<Rightarrow> nat \<Rightarrow> nat \<times> u8 list" where
  "copy_from_user us p n =
     (let readable =
            (case p of
               User a \<Rightarrow> (case bytes_at us a of None \<Rightarrow> [] | Some bs \<Rightarrow> bs)
             | Region b \<Rightarrow> [])
      in (n - length (take n readable), take n readable))"

definition bytes_of :: "string \<Rightarrow> u8 list" where
  "bytes_of s = map (\<lambda>c. of_nat (of_char c)) s"

definition memcpy :: "u8 list \<Rightarrow> u8 list \<Rightarrow> nat \<Rightarrow> u8 list" where
  "memcpy to from n = take n from @ drop n to"

text \<open>
  \<^verbatim>\<open>crypto_chrdev_ioctl\<close> up to the critical section: the buffers, the common header and
  the switch on \<^verbatim>\<open>cmd\<close>. \<open>Abort ret m\<close> is the jump to \<^verbatim>\<open>fail\<close> with \<^verbatim>\<open>ret\<close> set and the
  memory as written so far (\<^verbatim>\<open>copy_from_user\<close> zero-fills what it could not copy).

  The key buffer is \<^verbatim>\<open>kzalloc(copied_session.keylen+1, GFP_KERNEL)\<close>: its size is computed
  in \<^verbatim>\<open>__u32\<close> and wraps to 0 at \<^verbatim>\<open>keylen = 0xFFFFFFFF\<close>, and the result is used without a
  check. \<open>kz\<close> says whether the allocator returned a buffer. The copy of \<^verbatim>\<open>keylen\<close>
  bytes and the store of the final NUL at index \<^verbatim>\<open>keylen\<close> write through that pointer.
  Through \<^verbatim>\<open>NULL\<close>, or past a buffer of fewer than \<^verbatim>\<open>keylen + 1\<close> bytes, the write is
  outside every object, which C leaves undefined: the kernel faults and nothing is
  submitted (\<open>Oops\<close>).
\<close>

datatype prepared = Abort int guest_mem | Oops | Submit sg_state guest_mem

definition ioctl_request ::
  "headers \<Rightarrow> bool \<Rightarrow> user_space \<Rightarrow> crypto_open_file \<Rightarrow> u32 \<Rightarrow> nat \<Rightarrow> guest_mem \<Rightarrow> prepared" where
  "ioctl_request k kz us crof c arg m0 =
     (let m = m0\<lparr>mem_output_msg := replicate MSG_LEN 0, mem_input_msg := replicate MSG_LEN 0,
                 mem_syscall_type := VIRTIO_CRYPTODEV_SYSCALL_IOCTL k,
                 mem_host_fd := host_fd crof, mem_cmd := c\<rparr>;
          sg = sg_out Cmd (sg_out Host_fd (sg_out Syscall_type (sg_init 9)))
      in if c = CIOCGSESSION k then
           (let m1 = m\<lparr>mem_output_msg :=
                         memcpy (mem_output_msg m)
                           (bytes_of ''Hello HOST from ioctl CIOCGSESSION.'' @ [0]) 36,
                       mem_input_msg := (mem_input_msg m)[0 := 0]\<rparr>;
                sg1 = sg_in Input_msg (sg_out Output_msg sg)
            in case session_at us arg of
                 None \<Rightarrow>
                   Abort (int (sizeof_session_op k))
                     (m1\<lparr>mem_copied_session := \<lparr>keylen = 0, key = User 0, ses = 0\<rparr>\<rparr>)
               | Some user_session \<Rightarrow>
                   (let m2 = m1\<lparr>mem_copied_session := user_session\<rparr>;
                        size_key = unat (keylen user_session + 1);
                        n = unat (keylen user_session)
                    in if kz \<and> n < size_key then
                         (case copy_from_user us (key user_session) n of (not_copied, bs) \<Rightarrow>
                            if not_copied \<noteq> 0
                            then Abort (int not_copied)
                                   (m2\<lparr>mem_session_key := bs @ replicate (not_copied + 1) 0\<rparr>)
                            else Submit (sg_in Copied_session sg1)
                                   (m2\<lparr>mem_session_key := bs @ [0]\<rparr>))
                       else Oops))
         else if c = CIOCFSESSION k then
           Submit (sg_in Input_msg (sg_out Output_msg sg))
             (m\<lparr>mem_output_msg :=
                  memcpy (mem_output_msg m)
                    (bytes_of ''Hello HOST from ioctl CIOCFSESSION.'' @ [0]) 36,
                mem_input_msg := (mem_input_msg m)[0 := 0]\<rparr>)
         else if c = CIOCCRYPT k then
           Submit (sg_in Input_msg (sg_out Output_msg sg))
             (m\<lparr>mem_output_msg :=
                  memcpy (mem_output_msg m)
                    (bytes_of ''Hello HOST from ioctl CIOCCRYPT.'' @ [0]) 33,
                mem_input_msg := (mem_input_msg m)[0 := 0]\<rparr>)
         else Submit sg m)"

text \<open>
  \<^verbatim>\<open>crypto_chrdev_ioctl\<close>: the request, the critical section, and \<^verbatim>\<open>ret\<close>. The result
  carries the caller's address space as the call leaves it; \<open>None\<close> is a call that does
  not return (the kernel faulted, or the spin loop never ends).
\<close>

definition crypto_chrdev_ioctl ::
  "headers \<Rightarrow> device \<Rightarrow> bool \<Rightarrow> user_space \<Rightarrow> u32 \<Rightarrow> nat \<Rightarrow> guest_state
     \<Rightarrow> (int \<times> user_space \<times> guest_state) option" where
  "crypto_chrdev_ioctl k dev kz us c arg s =
     (case private_data s of
        None \<Rightarrow> None
      | Some p \<Rightarrow>
          (case heap s p of
             None \<Rightarrow> None
           | Some crof \<Rightarrow>
               (case ioctl_request k kz us crof c arg (mem s) of
                  Abort ret m \<Rightarrow> Some (ret, us, s\<lparr>mem := m\<rparr>)
                | Oops \<Rightarrow> None
                | Submit sg m \<Rightarrow>
                    (case sync_call dev (vq s) sg m of
                       None \<Rightarrow> None
                     | Some (q', m') \<Rightarrow>
                         Some (0, us,
                               s\<lparr>heap := (heap s)(p \<mapsto> crof\<lparr>host_fd := mem_host_fd m'\<rparr>),
                                 vq := q', mem := m'\<rparr>)))))"

text \<open>
  \<^verbatim>\<open>crypto_chrdev_read\<close>: the result, the caller's address space and the file position as
  the call leaves them.
\<close>

definition crypto_chrdev_read ::
  "guest_state \<Rightarrow> user_space \<Rightarrow> nat \<Rightarrow> nat \<Rightarrow> int \<Rightarrow> int \<times> user_space \<times> int \<times> guest_state" where
  "crypto_chrdev_read s us usrbuf cnt f_pos = (- EINVAL, us, f_pos, s)"

subsection \<open>The host dispatcher\<close>

text \<open>
  The real crypto device is external: \<^verbatim>\<open>open("/dev/crypto", O_RDWR)\<close>, \<^verbatim>\<open>close\<close> and
  \<^verbatim>\<open>ioctl\<close>, which receives a pointer into the shared memory and may write through it.
\<close>

record real_device =
  real_open :: int
  real_close :: "int \<Rightarrow> int"
  real_ioctl :: "int \<Rightarrow> u32 \<Rightarrow> buffer \<Rightarrow> guest_mem \<Rightarrow> int \<times> guest_mem"

text \<open>The calls of the real device the handler makes, and its calls on the queue.\<close>

datatype real_call =
  Real_open
  | Real_close int
  | Real_ioctl int u32 buffer

datatype vq_event = Push VirtQueueElement | Notify

text \<open>The inner switch of \<^verbatim>\<open>vq_handle_output\<close>, on \<^verbatim>\<open>*cmd\<close>.\<close>

definition handle_ioctl ::
  "headers \<Rightarrow> real_device \<Rightarrow> VirtQueueElement \<Rightarrow> int \<Rightarrow> u32 \<Rightarrow> guest_mem
     \<Rightarrow> (guest_mem \<times> real_call list) option" where
  "handle_ioctl k rd elem fd c m =
     (if c = CIOCGSESSION k then
        do {
          sess \<leftarrow> iov_base (in_sg elem) 0;
          key_bytes \<leftarrow> iov_base (in_sg elem) 1;
          host_return_val \<leftarrow> iov_base (in_sg elem) 2;
          m1 \<leftarrow> store_session_key k sess (Region key_bytes) m;
          (case real_ioctl rd fd (CIOCGSESSION k) sess m1 of (r, m2) \<Rightarrow>
             do {
               m3 \<leftarrow> store_int k host_return_val r m2;
               Some (m3, [Real_ioctl fd (CIOCGSESSION k) sess])
             })
        }
      else if c = CIOCFSESSION k then
        do {
          ses_id \<leftarrow> iov_base (in_sg elem) 0;
          host_return_val \<leftarrow> iov_base (in_sg elem) 1;
          (case real_ioctl rd fd (CIOCFSESSION k) ses_id m of (r, m2) \<Rightarrow>
             do {
               m3 \<leftarrow> store_int k host_return_val r m2;
               Some (m3, [Real_ioctl fd (CIOCFSESSION k) ses_id])
             })
        }
      else if c = CIOCCRYPT k then
        do {
          crypt \<leftarrow> iov_base (in_sg elem) 0;
          src_bytes \<leftarrow> iov_base (in_sg elem) 1;
          dst_bytes \<leftarrow> iov_base (in_sg elem) 2;
          iv_bytes \<leftarrow> iov_base (in_sg elem) 3;
          host_return_val \<leftarrow> iov_base (in_sg elem) 4;
          m1 \<leftarrow> store_crypt_ptrs k crypt (Region src_bytes) (Region dst_bytes)
                  (Region iv_bytes) m;
          (case real_ioctl rd fd (CIOCCRYPT k) crypt m1 of (r, m2) \<Rightarrow>
             do {
               m3 \<leftarrow> store_int k host_return_val r m2;
               Some (m3, [Real_ioctl fd (CIOCCRYPT k) crypt])
             })
        }
      else Some (m, []))"

text \<open>
  The outer switch of \<^verbatim>\<open>vq_handle_output\<close>, on \<^verbatim>\<open>*syscall_type\<close>: the shared memory as
  the switch leaves it and the calls of the real device it made, or \<open>None\<close> where it
  made an access the model leaves undefined.
\<close>

definition handle_syscall ::
  "headers \<Rightarrow> real_device \<Rightarrow> VirtQueueElement \<Rightarrow> guest_mem
     \<Rightarrow> (guest_mem \<times> real_call list) option" where
  "handle_syscall k rd elem m =
     do {
       syscall_type \<leftarrow> iov_base (out_sg elem) 0;
       t \<leftarrow> load_uint syscall_type m;
       if t = VIRTIO_CRYPTODEV_SYSCALL_TYPE_OPEN k then
         do {
           host_fd_p \<leftarrow> iov_base (in_sg elem) 0;
           m1 \<leftarrow> store_int k host_fd_p (real_open rd) m;
           Some (m1, [Real_open])
         }
       else if t = VIRTIO_CRYPTODEV_SYSCALL_TYPE_CLOSE k then
         do {
           host_fd_p \<leftarrow> iov_base (out_sg elem) 1;
           fd \<leftarrow> load_int host_fd_p m;
           Some (m, [Real_close fd])
         }
       else if t = VIRTIO_CRYPTODEV_SYSCALL_TYPE_IOCTL k then
         do {
           host_fd_p \<leftarrow> iov_base (out_sg elem) 1;
           cmd_p \<leftarrow> iov_base (out_sg elem) 2;
           fd \<leftarrow> load_int host_fd_p m;
           c \<leftarrow> load_uint cmd_p m;
           handle_ioctl k rd elem fd c m
         }
       else Some (m, [])
     }"

text \<open>
  \<^verbatim>\<open>vq_handle_output\<close>. The function has one early \<^verbatim>\<open>return\<close>, taken when nothing can
  be popped, after a notification. Past it every case of the two switches ends in
  \<^verbatim>\<open>break\<close>, and \<^verbatim>\<open>virtqueue_push(vq, elem, 0)\<close> and \<^verbatim>\<open>virtio_notify(vdev, vq)\<close> are the
  statements that follow the outer switch. So the result has three parts: the queue
  as the handler leaves it, its calls on the queue in order, and what the switch did
  to the shared memory with the calls of the real device it made. The first two are
  those of the statements around the switch on every path through it; the third is
  \<open>None\<close> where the switch made an access the model leaves undefined, such as
  \<^verbatim>\<open>in_sg[2]\<close> of a descriptor set with two host-writable regions.
\<close>

definition vq_handle_output ::
  "headers \<Rightarrow> real_device \<Rightarrow> virtqueue \<Rightarrow> guest_mem
     \<Rightarrow> virtqueue \<times> vq_event list \<times> (guest_mem \<times> real_call list) option" where
  "vq_handle_output k rd q m =
     (case virtqueue_pop q of
        None \<Rightarrow> (q, [Notify], Some (m, []))
      | Some (elem, q1) \<Rightarrow>
          (virtqueue_push q1 elem, [Push elem, Notify], handle_syscall k rd elem m))"

text \<open>
  The host backend as the device side of the guest's queue. Where the memory the
  handler leaves is undefined, so is what the guest finds on its return (\<open>None\<close>).
\<close>

definition host_device :: "headers \<Rightarrow> real_device \<Rightarrow> device" where
  "host_device k rd qm =
     (case qm of (q, m) \<Rightarrow>
        (case vq_handle_output k rd q m of
           (q', tr, None) \<Rightarrow> None
         | (q', tr, Some (m', calls)) \<Rightarrow> Some (q', m')))"

subsection \<open>Concrete inputs\<close>

text \<open>
  Header values as they are on an x86-64 Linux guest and host: tags 0, 1, 2 on both
  sides; the \<^verbatim>\<open>_IOWR('c', 102, ...)\<close>, \<^verbatim>\<open>_IOW('c', 103, ...)\<close>, \<^verbatim>\<open>_IOWR('c', 104, ...)\<close>
  numbers of \<^verbatim>\<open>cryptodev.h\<close> with its 48-byte \<^verbatim>\<open>struct session_op\<close> (\<^verbatim>\<open>key\<close> at offset
  16) and \<^verbatim>\<open>struct crypt_op\<close> (\<^verbatim>\<open>src\<close>, \<^verbatim>\<open>dst\<close>, \<^verbatim>\<open>iv\<close> at offsets 16, 24, 40); a
  four-byte little-endian \<^verbatim>\<open>int\<close> and eight-byte little-endian pointers, the guest's
  buffers being mapped by the host one page apart.
\<close>

definition le32 :: "int \<Rightarrow> u8 list" where
  "le32 v = [word_of_int v, word_of_int (v div 2 ^ 8), word_of_int (v div 2 ^ 16),
             word_of_int (v div 2 ^ 24)]"

definition le64 :: "int \<Rightarrow> u8 list" where
  "le64 v = le32 v @ le32 (v div 2 ^ 32)"

definition host_address :: "buffer \<Rightarrow> int" where
  "host_address b =
     0x7F0000000000 + 4096 *
       (case b of
          Syscall_type \<Rightarrow> 0 | Host_fd \<Rightarrow> 1 | Cmd \<Rightarrow> 2 | Output_msg \<Rightarrow> 3 | Input_msg \<Rightarrow> 4
        | Copied_session \<Rightarrow> 5 | Session_key \<Rightarrow> 6 | Copied_crypt \<Rightarrow> 7)"

definition linux_headers :: headers where
  "linux_headers =
     \<lparr>VIRTIO_CRYPTODEV_SYSCALL_OPEN = 0, VIRTIO_CRYPTODEV_SYSCALL_CLOSE = 1,
      VIRTIO_CRYPTODEV_SYSCALL_IOCTL = 2,
      VIRTIO_CRYPTODEV_SYSCALL_TYPE_OPEN = 0, VIRTIO_CRYPTODEV_SYSCALL_TYPE_CLOSE = 1,
      VIRTIO_CRYPTODEV_SYSCALL_TYPE_IOCTL = 2,
      CIOCGSESSION = 0xC0306366, CIOCFSESSION = 0x40046367, CIOCCRYPT = 0xC0306368,
      sizeof_session_op = 48,
      offsetof_key = 16, offsetof_src = 16, offsetof_dst = 24, offsetof_iv = 40,
      int_repr = le32,
      ptr_repr = (\<lambda>p. case p of User a \<Rightarrow> le64 (int a) | Region b \<Rightarrow> le64 (host_address b))\<rparr>"

definition blank_mem :: guest_mem where
  "blank_mem =
     \<lparr>mem_syscall_type = 0, mem_host_fd = 0, mem_cmd = 0, mem_output_msg = [],
      mem_input_msg = [], mem_copied_session = \<lparr>keylen = 0, key = User 0, ses = 0\<rparr>,
      mem_session_key = [], mem_copied_crypt = \<lparr>src = User 0, dst = User 0, iv = User 0\<rparr>\<rparr>"

definition idle_vq :: virtqueue where
  "idle_vq = \<lparr>avail = [], used = []\<rparr>"

text \<open>A guest with one registered device (minor 0) and no open file.\<close>

definition fresh_guest :: guest_state where
  "fresh_guest =
     \<lparr>devs = [\<lparr>minor = 0\<rparr>], heap = Map.empty, private_data = None, vq = idle_vq,
      mem = blank_mem\<rparr>"

text \<open>The same guest with the file open on host handle 3, its context at address 1.\<close>

definition open_guest :: guest_state where
  "open_guest =
     fresh_guest\<lparr>heap := [1 \<mapsto> \<lparr>crdev = \<lparr>minor = 0\<rparr>, host_fd = 3\<rparr>], private_data := Some 1\<rparr>"

text \<open>
  A caller holding a session descriptor at address 4096 whose 16-byte key lies at
  address 8192.
\<close>

definition caller_session :: session_op where
  "caller_session = \<lparr>keylen = 16, key = User 8192, ses = 0\<rparr>"

definition caller :: user_space where
  "caller =
     \<lparr>session_at = [4096 \<mapsto> caller_session],
      bytes_at = [8192 \<mapsto> bytes_of ''0123456789abcdef'']\<rparr>"

text \<open>
  A caller whose descriptor declares the largest key length, with that many readable
  bytes behind the key pointer; and a caller whose descriptor declares an empty key.
\<close>

definition long_key_caller :: user_space where
  "long_key_caller =
     \<lparr>session_at = [4096 \<mapsto> \<lparr>keylen = 0xFFFFFFFF, key = User 8192, ses = 0\<rparr>],
      bytes_at = [8192 \<mapsto> replicate 4294967295 0]\<rparr>"


text \<open>A real device whose every call succeeds: handle 3, status 0, memory untouched.\<close>

definition good_device :: real_device where
  "good_device = \<lparr>real_open = 3, real_close = (\<lambda>fd. 0), real_ioctl = (\<lambda>fd c p m. (0, m))\<rparr>"

text \<open>A real device whose every call fails.\<close>

definition bad_device :: real_device where
  "bad_device =
     \<lparr>real_open = - 1, real_close = (\<lambda>fd. - 1), real_ioctl = (\<lambda>fd c p m. (- 1, m))\<rparr>"

text \<open>
  A device side that completes every request and assigns session identifier 7 in the
  session descriptor of the shared memory.
\<close>

definition assigning_device :: device where
  "assigning_device qm =
     (case qm of (q, m) \<Rightarrow>
        (case virtqueue_pop q of
           None \<Rightarrow> Some (q, m)
         | Some (e, q1) \<Rightarrow>
             Some (virtqueue_push q1 e,
                   m\<lparr>mem_copied_session := (mem_copied_session m)\<lparr>ses := 7\<rparr>\<rparr>)))"

text \<open>The header of a session-creation request on handle 3, in an otherwise blank memory.\<close>

definition get_session_mem :: guest_mem where
  "get_session_mem =
     blank_mem\<lparr>mem_syscall_type := 2, mem_host_fd := 3, mem_cmd := CIOCGSESSION linux_headers\<rparr>"

text \<open>The descriptor set a prepared request puts on the queue, if it gets that far.\<close>

definition request_element :: "prepared \<Rightarrow> VirtQueueElement option" where
  "request_element r =
     (case r of Abort n m \<Rightarrow> None | Oops \<Rightarrow> None | Submit sg m \<Rightarrow> Some (element_of sg))"

text \<open>
  Both \<^verbatim>\<open>copy_from_user\<close> calls of the session-creation branch return 0: the descriptor
  is mapped at \<open>arg\<close> and all \<^verbatim>\<open>keylen\<close> bytes of its key are readable.
\<close>

definition get_session_copies_succeed :: "user_space \<Rightarrow> nat \<Rightarrow> bool" where
  "get_session_copies_succeed us arg =
     (case session_at us arg of
        None \<Rightarrow> False
      | Some u \<Rightarrow> fst (copy_from_user us (key u) (unat (keylen u))) = 0)"


text \<open>
  The two descriptor sets the driver builds for the commands it knows: the common
  header with the two diagnostic buffers, and the same with the session descriptor.
\<close>

definition message_request_element :: VirtQueueElement where
  "message_request_element =
     \<lparr>out_sg = [Some Syscall_type, Some Host_fd, Some Cmd, Some Output_msg],
      in_sg = [Some Input_msg]\<rparr>"

definition session_request_element :: VirtQueueElement where
  "session_request_element =
     \<lparr>out_sg = [Some Syscall_type, Some Host_fd, Some Cmd, Some Output_msg],
      in_sg = [Some Input_msg, Some Copied_session]\<rparr>"

text \<open>
  A session-creation request laid out as the dispatcher reads it: the session
  descriptor, the key bytes and a status buffer (here \<^verbatim>\<open>input_msg\<close>) as its three
  host-writable regions.
\<close>

definition host_session_element :: VirtQueueElement where
  "host_session_element =
     \<lparr>out_sg = [Some Syscall_type, Some Host_fd, Some Cmd, Some Output_msg],
      in_sg = [Some Copied_session, Some Session_key, Some Input_msg]\<rparr>"

section \<open>Supporting lemmas\<close>

subsection \<open>The spin loop and the critical section\<close>

lemma poll_get_buf_used: "used q = e # es \<Longrightarrow> poll_get_buf q = Some (q\<lparr>used := es\<rparr>)"
  by (subst poll_get_buf.simps) (simp add: virtqueue_get_buf_def)

lemma poll_get_buf_Some:
  assumes "poll_get_buf q = Some r"
  shows "used q \<noteq> []"
  by (rule poll_get_buf.raw_induct [where P = "\<lambda>q r. used q \<noteq> []", OF _ assms])
     (auto simp: virtqueue_get_buf_def split: option.splits list.splits)

lemma poll_get_buf_empty: "used q = [] \<Longrightarrow> poll_get_buf q = None"
  using poll_get_buf_Some [of q] by (cases "poll_get_buf q") simp_all

text \<open>
  The critical section hands the request to the device and returns what the device
  left, exactly when the device gave a completed descriptor set back.
\<close>

lemma sync_call_eq:
  "sync_call dev q s m =
     (case dev (virtqueue_add_sgs q s, m) of
        None \<Rightarrow> None
      | Some (q1, m1) \<Rightarrow>
          (case used q1 of [] \<Rightarrow> None | e # es \<Rightarrow> Some (q1\<lparr>used := es\<rparr>, m1)))"
  by (simp add: sync_call_def virtqueue_kick_def poll_get_buf_empty poll_get_buf_used
           split: option.splits list.splits)

subsection \<open>The host handler on an idle queue\<close>

lemma vq_handle_output_idle:
  assumes "avail q = []"
  shows "vq_handle_output k rd (virtqueue_add_sgs q s) m =
           (q\<lparr>used := used q @ [element_of s]\<rparr>, [Push (element_of s), Notify],
            handle_syscall k rd (element_of s) m)"
  using assms
  by (simp add: vq_handle_output_def virtqueue_add_sgs_def virtqueue_pop_def virtqueue_push_def)

lemma host_device_idle:
  assumes "avail q = []"
  shows "host_device k rd (virtqueue_add_sgs q s, m) =
           (case handle_syscall k rd (element_of s) m of
              None \<Rightarrow> None
            | Some (m', calls) \<Rightarrow> Some (q\<lparr>used := used q @ [element_of s]\<rparr>, m'))"
  using assms by (simp add: host_device_def vq_handle_output_idle split: option.splits)

lemma sync_call_host:
  assumes "avail q = []"
  shows "sync_call (host_device k rd) q s m =
           (case handle_syscall k rd (element_of s) m of
              None \<Rightarrow> None
            | Some (m', calls) \<Rightarrow> Some (q\<lparr>used := tl (used q @ [element_of s])\<rparr>, m'))"
  using assms
  by (cases "used q") (simp_all add: sync_call_eq host_device_idle split: option.splits)

subsection \<open>The descriptor sets the driver builds\<close>

lemma open_element:
  "element_of (fst (open_request k m)) = \<lparr>out_sg = [Some Syscall_type], in_sg = [Some Host_fd]\<rparr>"
  by (simp add: open_request_def element_of_def sg_in_def sg_out_def sg_init_def numeral_eq_Suc)

lemma release_element:
  "element_of (fst (release_request k crof m))
     = \<lparr>out_sg = [Some Syscall_type, Some Host_fd], in_sg = []\<rparr>"
  by (simp add: release_request_def element_of_def sg_in_def sg_out_def sg_init_def numeral_eq_Suc)

lemma header_element:
  "element_of (sg_out Cmd (sg_out Host_fd (sg_out Syscall_type (sg_init 9)))) =
     \<lparr>out_sg = [Some Syscall_type, Some Host_fd, Some Cmd], in_sg = []\<rparr>"
  by (simp add: element_of_def sg_in_def sg_out_def sg_init_def numeral_eq_Suc)

lemma msg_element:
  "element_of (sg_in Input_msg (sg_out Output_msg
       (sg_out Cmd (sg_out Host_fd (sg_out Syscall_type (sg_init 9)))))) =
     \<lparr>out_sg = [Some Syscall_type, Some Host_fd, Some Cmd, Some Output_msg],
      in_sg = [Some Input_msg]\<rparr>"
  by (simp add: element_of_def sg_in_def sg_out_def sg_init_def numeral_eq_Suc)

lemma session_element:
  "element_of (sg_in Copied_session (sg_in Input_msg (sg_out Output_msg
       (sg_out Cmd (sg_out Host_fd (sg_out Syscall_type (sg_init 9))))))) =
     \<lparr>out_sg = [Some Syscall_type, Some Host_fd, Some Cmd, Some Output_msg],
      in_sg = [Some Input_msg, Some Copied_session]\<rparr>"
  by (simp add: element_of_def sg_in_def sg_out_def sg_init_def numeral_eq_Suc)

lemma ioctl_request_unknown:
  assumes "c \<noteq> CIOCGSESSION k" "c \<noteq> CIOCFSESSION k" "c \<noteq> CIOCCRYPT k"
  shows "\<exists>sg m. ioctl_request k kz us crof c arg m0 = Submit sg m
           \<and> element_of sg = \<lparr>out_sg = [Some Syscall_type, Some Host_fd, Some Cmd], in_sg = []\<rparr>
           \<and> mem_syscall_type m = VIRTIO_CRYPTODEV_SYSCALL_IOCTL k
           \<and> mem_host_fd m = host_fd crof \<and> mem_cmd m = c"
  using assms by (simp add: ioctl_request_def header_element)

lemma ioctl_request_get_session:
  assumes "session_at us arg = Some u"
      and "kz" and "unat (keylen u) < unat (keylen u + 1)"
      and "fst (copy_from_user us (key u) (unat (keylen u))) = 0"
  shows "\<exists>sg m. ioctl_request k kz us crof (CIOCGSESSION k) arg m0 = Submit sg m
           \<and> element_of sg
               = \<lparr>out_sg = [Some Syscall_type, Some Host_fd, Some Cmd, Some Output_msg],
                  in_sg = [Some Input_msg, Some Copied_session]\<rparr>
           \<and> mem_copied_session m = u
           \<and> mem_session_key m = snd (copy_from_user us (key u) (unat (keylen u))) @ [0]
           \<and> mem_syscall_type m = VIRTIO_CRYPTODEV_SYSCALL_IOCTL k
           \<and> mem_host_fd m = host_fd crof \<and> mem_cmd m = CIOCGSESSION k"
  using assms
  by (auto simp: ioctl_request_def Let_def session_element split: prod.splits)


lemma ioctl_request_oops:
  assumes "session_at us arg = Some u"
      and "kz \<and> unat (keylen u) < unat (keylen u + 1) \<Longrightarrow> False"
  shows "ioctl_request k kz us crof (CIOCGSESSION k) arg m0 = Oops"
  using assms by (auto simp: ioctl_request_def Let_def)

subsection \<open>The dispatcher on the driver's descriptor sets\<close>

lemma handle_open_element:
  assumes "mem_syscall_type m = VIRTIO_CRYPTODEV_SYSCALL_TYPE_OPEN k"
  shows "handle_syscall k rd \<lparr>out_sg = [Some Syscall_type], in_sg = [Some Host_fd]\<rparr> m
           = Some (m\<lparr>mem_host_fd := real_open rd\<rparr>, [Real_open])"
  using assms by (simp add: handle_syscall_def iov_base_def)

lemma handle_close_element:
  assumes "mem_syscall_type m = VIRTIO_CRYPTODEV_SYSCALL_TYPE_CLOSE k"
      and "VIRTIO_CRYPTODEV_SYSCALL_TYPE_CLOSE k \<noteq> VIRTIO_CRYPTODEV_SYSCALL_TYPE_OPEN k"
  shows "handle_syscall k rd \<lparr>out_sg = [Some Syscall_type, Some Host_fd], in_sg = []\<rparr> m
           = Some (m, [Real_close (mem_host_fd m)])"
  using assms by (simp add: handle_syscall_def iov_base_def)

lemma handle_unknown_command:
  assumes "mem_syscall_type m = VIRTIO_CRYPTODEV_SYSCALL_TYPE_IOCTL k"
      and "VIRTIO_CRYPTODEV_SYSCALL_TYPE_IOCTL k \<noteq> VIRTIO_CRYPTODEV_SYSCALL_TYPE_OPEN k"
      and "VIRTIO_CRYPTODEV_SYSCALL_TYPE_IOCTL k \<noteq> VIRTIO_CRYPTODEV_SYSCALL_TYPE_CLOSE k"
      and "mem_cmd m \<noteq> CIOCGSESSION k" "mem_cmd m \<noteq> CIOCFSESSION k" "mem_cmd m \<noteq> CIOCCRYPT k"
  shows "handle_syscall k rd \<lparr>out_sg = [Some Syscall_type, Some Host_fd, Some Cmd], in_sg = []\<rparr> m
           = Some (m, [])"
  using assms by (simp add: handle_syscall_def handle_ioctl_def iov_base_def)

text \<open>
  On a request laid out as the dispatcher reads it, the session-creation branch patches
  the key pointer, calls the real device on the descriptor and stores the status,
  whatever it is, in the status buffer.
\<close>

lemma handle_get_session_layout:
  assumes "mem_syscall_type m = VIRTIO_CRYPTODEV_SYSCALL_TYPE_IOCTL k"
      and "VIRTIO_CRYPTODEV_SYSCALL_TYPE_IOCTL k \<noteq> VIRTIO_CRYPTODEV_SYSCALL_TYPE_OPEN k"
      and "VIRTIO_CRYPTODEV_SYSCALL_TYPE_IOCTL k \<noteq> VIRTIO_CRYPTODEV_SYSCALL_TYPE_CLOSE k"
      and "mem_cmd m = CIOCGSESSION k"
  shows "handle_syscall k rd host_session_element m =
           (case real_ioctl rd (mem_host_fd m) (CIOCGSESSION k) Copied_session
                   (m\<lparr>mem_copied_session := (mem_copied_session m)\<lparr>key := Region Session_key\<rparr>\<rparr>) of
              (r, m2) \<Rightarrow>
                (case store_int k Input_msg r m2 of
                   None \<Rightarrow> None
                 | Some m3 \<Rightarrow>
                     Some (m3, [Real_ioctl (mem_host_fd m) (CIOCGSESSION k) Copied_session])))"
  using assms
  by (simp add: handle_syscall_def handle_ioctl_def iov_base_def host_session_element_def
        split: prod.splits option.splits)

lemma handle_get_session_failing:
  "handle_syscall linux_headers bad_device host_session_element
        (get_session_mem\<lparr>mem_input_msg := replicate 100 0\<rparr>)
     = Some (get_session_mem
               \<lparr>mem_input_msg := [255, 255, 255, 255] @ replicate 96 0,
                 mem_copied_session := \<lparr>keylen = 0, key = Region Session_key, ses = 0\<rparr>\<rparr>,
             [Real_ioctl 3 (CIOCGSESSION linux_headers) Copied_session])"
  by (simp add: handle_syscall_def handle_ioctl_def iov_base_def host_session_element_def
        get_session_mem_def blank_mem_def linux_headers_def bad_device_def store_at_def le32_def)

lemma caller_copies: 
  "session_at caller 4096 = Some caller_session"
  "unat (keylen caller_session) < unat (keylen caller_session + 1)"
  "fst (copy_from_user caller (key caller_session) (unat (keylen caller_session))) = 0"
  by (simp_all add: caller_def caller_session_def copy_from_user_def bytes_of_def)

lemma linux_get_session_request:
  "\<exists>sg m. ioctl_request linux_headers True caller crof (CIOCGSESSION linux_headers) 4096 m0
             = Submit sg m
     \<and> element_of sg = session_request_element
     \<and> handle_syscall linux_headers rd (element_of sg) m = None"
proof -
  from ioctl_request_get_session [OF caller_copies(1) TrueI caller_copies(2,3),
                                  of linux_headers crof m0]
  obtain sg m
    where rq: "ioctl_request linux_headers True caller crof (CIOCGSESSION linux_headers) 4096 m0
                 = Submit sg m"
      and el: "element_of sg = session_request_element"
      and hd: "mem_syscall_type m = VIRTIO_CRYPTODEV_SYSCALL_IOCTL linux_headers"
              "mem_cmd m = CIOCGSESSION linux_headers"
    by (auto simp: session_request_element_def)
  have "handle_syscall linux_headers rd session_request_element m = None"
    using hd
    by (auto simp: handle_syscall_def handle_ioctl_def iov_base_def session_request_element_def
          linux_headers_def split: Option.bind_splits if_splits)
  with rq el show ?thesis by simp
qed

lemma linux_free_session_request:
  "\<exists>sg m. ioctl_request linux_headers kz us crof (CIOCFSESSION linux_headers) arg m0
             = Submit sg m
     \<and> element_of sg = message_request_element
     \<and> handle_syscall linux_headers rd (element_of sg) m = None"
  by (simp add: ioctl_request_def linux_headers_def msg_element message_request_element_def
        handle_syscall_def handle_ioctl_def iov_base_def)

lemma linux_crypt_request:
  "\<exists>sg m. ioctl_request linux_headers kz us crof (CIOCCRYPT linux_headers) arg m0 = Submit sg m
     \<and> element_of sg = message_request_element
     \<and> handle_syscall linux_headers rd (element_of sg) m = None"
  by (simp add: ioctl_request_def linux_headers_def msg_element message_request_element_def
        handle_syscall_def handle_ioctl_def iov_base_def)

subsection \<open>One call of the driver against a device\<close>

text \<open>
  A request that reaches the critical section is handed to the device; the call
  returns exactly when the device gives a completed descriptor set back, with result
  0, the caller's address space as it was and the shared memory as the device left it.
\<close>

lemma crypto_chrdev_ioctl_eq:
  assumes "private_data s = Some p" and "heap s p = Some crof"
      and "ioctl_request k kz us crof c arg (mem s) = Submit sg m"
  shows "crypto_chrdev_ioctl k dev kz us c arg s =
           (case dev (virtqueue_add_sgs (vq s) sg, m) of
              None \<Rightarrow> None
            | Some (q1, m1) \<Rightarrow>
                (case used q1 of
                   [] \<Rightarrow> None
                 | e # es \<Rightarrow>
                     Some (0, us,
                           s\<lparr>heap := (heap s)(p \<mapsto> crof\<lparr>host_fd := mem_host_fd m1\<rparr>),
                             vq := q1\<lparr>used := es\<rparr>, mem := m1\<rparr>)))"
  using assms
  by (simp add: crypto_chrdev_ioctl_def sync_call_eq split: option.splits list.splits)

lemma crypto_chrdev_release_eq:
  assumes "private_data s = Some p" and "heap s p = Some crof"
      and "release_request k crof (mem s) = (sg, m)"
  shows "crypto_chrdev_release k dev s =
           (case dev (virtqueue_add_sgs (vq s) sg, m) of
              None \<Rightarrow> None
            | Some (q1, m1) \<Rightarrow>
                (case used q1 of
                   [] \<Rightarrow> None
                 | e # es \<Rightarrow>
                     Some (0, s\<lparr>heap := (heap s)(p := None), vq := q1\<lparr>used := es\<rparr>, mem := m1\<rparr>)))"
  using assms
  by (simp add: crypto_chrdev_release_def sync_call_eq split: option.splits list.splits)

lemma crypto_chrdev_ioctl_host_undefined:
  assumes "private_data s = Some p" and "heap s p = Some crof"
      and "ioctl_request k kz us crof c arg (mem s) = Submit sg m"
      and "avail (vq s) = []"
      and "handle_syscall k rd (element_of sg) m = None"
  shows "crypto_chrdev_ioctl k (host_device k rd) kz us c arg s = None"
  using assms
  by (simp add: crypto_chrdev_ioctl_def sync_call_host)

lemma crypto_chrdev_open_host:
  assumes agree: "VIRTIO_CRYPTODEV_SYSCALL_OPEN k = VIRTIO_CRYPTODEV_SYSCALL_TYPE_OPEN k"
      and idle: "avail (vq s) = []"
  shows "sync_call (host_device k rd) (vq s) (fst (open_request k (mem s)))
             (snd (open_request k (mem s)))
           = Some ((vq s)\<lparr>used := tl (used (vq s) @ [element_of (fst (open_request k (mem s)))])\<rparr>,
                   (mem s)\<lparr>mem_syscall_type := VIRTIO_CRYPTODEV_SYSCALL_OPEN k,
                           mem_host_fd := real_open rd\<rparr>)"
proof -
  let ?sg = "fst (open_request k (mem s))" and ?m = "snd (open_request k (mem s))"
  have ty: "mem_syscall_type ?m = VIRTIO_CRYPTODEV_SYSCALL_TYPE_OPEN k"
    using agree by (simp add: open_request_def)
  have h: "handle_syscall k rd (element_of ?sg) ?m
             = Some (?m\<lparr>mem_host_fd := real_open rd\<rparr>, [Real_open])"
    using handle_open_element [OF ty, of rd] by (simp add: open_element)
  show ?thesis
    using h by (simp add: sync_call_host [OF idle] open_request_def)
qed

lemma assigning_device_eq:
  "assigning_device (virtqueue_add_sgs idle_vq sg, m)
     = Some (idle_vq\<lparr>used := [element_of sg]\<rparr>,
             m\<lparr>mem_copied_session := (mem_copied_session m)\<lparr>ses := 7\<rparr>\<rparr>)"
  by (simp add: assigning_device_def virtqueue_add_sgs_def virtqueue_pop_def
        virtqueue_push_def idle_vq_def)

lemma open_guest_file:
  "private_data open_guest = Some 1"
  "heap open_guest 1 = Some \<lparr>crdev = \<lparr>minor = 0\<rparr>, host_fd = 3\<rparr>"
  "vq open_guest = idle_vq"
  "avail (vq open_guest) = []"
  by (simp_all add: open_guest_def fresh_guest_def idle_vq_def)

section \<open>The claims\<close>

text \<open>
  C1. The session-creation layout on which guest and host would have to agree. At a
  session-creation ioctl whose key buffer is allocated and whose two copies from the
  caller succeed, the driver puts four guest-written regions on the queue (the header
  and \<^verbatim>\<open>output_msg\<close>; the key bytes are copied into \<^verbatim>\<open>session_key\<close> but no region points
  at them) and two host-writable ones (\<^verbatim>\<open>input_msg\<close>, then the session descriptor). The
  dispatcher takes its session descriptor from \<^verbatim>\<open>in_sg[0]\<close>, which is the driver's
  \<^verbatim>\<open>input_msg\<close>; its key from \<^verbatim>\<open>in_sg[1]\<close>, which is the driver's session descriptor; and
  its status word from \<^verbatim>\<open>in_sg[2]\<close>, past the end of what the driver sent. The two halves
  do not agree, and what the dispatcher leaves in memory on the driver's own request is
  undefined.
\<close>

theorem get_session_layout_mismatch:
  "request_element (ioctl_request linux_headers True caller \<lparr>crdev = \<lparr>minor = 0\<rparr>, host_fd = 3\<rparr>
       (CIOCGSESSION linux_headers) 4096 (mem open_guest))
     = Some session_request_element
   \<and> out_sg session_request_element
       = [Some Syscall_type, Some Host_fd, Some Cmd, Some Output_msg]
   \<and> in_sg session_request_element = [Some Input_msg, Some Copied_session]
   \<and> iov_base (in_sg session_request_element) 0 = Some Input_msg
   \<and> iov_base (in_sg session_request_element) 1 = Some Copied_session
   \<and> iov_base (in_sg session_request_element) 2 = None
   \<and> crypto_chrdev_ioctl linux_headers (host_device linux_headers good_device) True caller
        (CIOCGSESSION linux_headers) 4096 open_guest = None"
proof -
  from linux_get_session_request
         [of "\<lparr>crdev = \<lparr>minor = 0\<rparr>, host_fd = 3\<rparr>" "mem open_guest" good_device]
  obtain sg m
    where rq: "ioctl_request linux_headers True caller \<lparr>crdev = \<lparr>minor = 0\<rparr>, host_fd = 3\<rparr>
                 (CIOCGSESSION linux_headers) 4096 (mem open_guest) = Submit sg m"
      and el: "element_of sg = session_request_element"
      and un: "handle_syscall linux_headers good_device (element_of sg) m = None"
    by blast
  from crypto_chrdev_ioctl_host_undefined [OF open_guest_file(1,2) rq open_guest_file(4) un] rq el
  show ?thesis
    by (simp add: request_element_def session_request_element_def iov_base_def)
qed

text \<open>
  C2. The crypt payload. At a crypt ioctl the driver puts the header and the two
  diagnostic buffers on the queue and nothing else: no crypt descriptor, no source, no
  destination, no initialisation vector, whatever the caller passed. The dispatcher
  takes the crypt descriptor from \<^verbatim>\<open>in_sg[0]\<close> (the driver's \<^verbatim>\<open>input_msg\<close>) and source,
  destination, vector and status from \<^verbatim>\<open>in_sg[1]\<close> to \<^verbatim>\<open>in_sg[4]\<close>, none of which was
  sent. Against a device that completes the request the call leaves the caller's
  address space as it was: no destination buffer is copied back.
\<close>

theorem crypt_payload_not_transmitted:
  "request_element (ioctl_request linux_headers kz us crof (CIOCCRYPT linux_headers) arg m0)
     = Some message_request_element
   \<and> out_sg message_request_element
       = [Some Syscall_type, Some Host_fd, Some Cmd, Some Output_msg]
   \<and> in_sg message_request_element = [Some Input_msg]
   \<and> iov_base (in_sg message_request_element) 0 = Some Input_msg
   \<and> iov_base (in_sg message_request_element) 1 = None
   \<and> iov_base (in_sg message_request_element) 2 = None
   \<and> iov_base (in_sg message_request_element) 3 = None
   \<and> iov_base (in_sg message_request_element) 4 = None
   \<and> crypto_chrdev_ioctl linux_headers (host_device linux_headers rd) kz us
        (CIOCCRYPT linux_headers) arg open_guest = None
   \<and> map_option (fst \<circ> snd)
        (crypto_chrdev_ioctl linux_headers assigning_device kz us
           (CIOCCRYPT linux_headers) arg open_guest) = Some us"
proof -
  from linux_crypt_request
         [of kz us "\<lparr>crdev = \<lparr>minor = 0\<rparr>, host_fd = 3\<rparr>" arg "mem open_guest" rd]
  obtain sg m
    where rq: "ioctl_request linux_headers kz us \<lparr>crdev = \<lparr>minor = 0\<rparr>, host_fd = 3\<rparr>
                 (CIOCCRYPT linux_headers) arg (mem open_guest) = Submit sg m"
      and un: "handle_syscall linux_headers rd (element_of sg) m = None"
    by blast
  have unchanged: "map_option (fst \<circ> snd)
        (crypto_chrdev_ioctl linux_headers assigning_device kz us
           (CIOCCRYPT linux_headers) arg open_guest) = Some us"
    by (simp add: crypto_chrdev_ioctl_eq [OF open_guest_file(1,2) rq] open_guest_file(3)
          assigning_device_eq)
  from linux_crypt_request [of kz us crof arg m0 rd]
  have "request_element (ioctl_request linux_headers kz us crof (CIOCCRYPT linux_headers) arg m0)
          = Some message_request_element"
    by (auto simp: request_element_def)
  with crypto_chrdev_ioctl_host_undefined [OF open_guest_file(1,2) rq open_guest_file(4) un]
    unchanged
  show ?thesis
    by (simp add: message_request_element_def iov_base_def)
qed

text \<open>
  C3, as amended. At every session-creation ioctl whose key buffer holds the key and
  whose two copies from the caller succeed, the driver submits its copy of the session
  descriptor as a host-writable region (the second of two, after \<^verbatim>\<open>input_msg\<close>, and not
  among the guest-written ones), holding what the caller passed, and hands exactly that
  request to the device. The call returns when, and only when, the device gives a
  completed descriptor set back; it then returns 0, the caller's address space is as
  it was before the call, and the descriptor as the device left it is in the driver's
  own memory: the driver has no copy towards the caller.
\<close>

theorem get_session_descriptor_stays_in_kernel:
  assumes "private_data s = Some p" and "heap s p = Some crof"
      and "session_at us arg = Some u"
      and "kz" and "unat (keylen u) < unat (keylen u + 1)"
      and "fst (copy_from_user us (key u) (unat (keylen u))) = 0"
  shows "\<exists>sg m. ioctl_request k kz us crof (CIOCGSESSION k) arg (mem s) = Submit sg m
           \<and> in_sg (element_of sg) = [Some Input_msg, Some Copied_session]
           \<and> out_sg (element_of sg)
               = [Some Syscall_type, Some Host_fd, Some Cmd, Some Output_msg]
           \<and> mem_copied_session m = u
           \<and> (\<forall>dev. crypto_chrdev_ioctl k dev kz us (CIOCGSESSION k) arg s =
                  (case dev (virtqueue_add_sgs (vq s) sg, m) of
                     None \<Rightarrow> None
                   | Some (q1, m1) \<Rightarrow>
                       (case used q1 of
                          [] \<Rightarrow> None
                        | e # es \<Rightarrow>
                            Some (0, us,
                                  s\<lparr>heap := (heap s)(p \<mapsto> crof\<lparr>host_fd := mem_host_fd m1\<rparr>),
                                    vq := q1\<lparr>used := es\<rparr>, mem := m1\<rparr>))))"
proof -
  from ioctl_request_get_session [OF assms(3-6), of k crof "mem s"] obtain sg m
    where rq: "ioctl_request k kz us crof (CIOCGSESSION k) arg (mem s) = Submit sg m"
      and el: "element_of sg
               = \<lparr>out_sg = [Some Syscall_type, Some Host_fd, Some Cmd, Some Output_msg],
                  in_sg = [Some Input_msg, Some Copied_session]\<rparr>"
      and cs: "mem_copied_session m = u"
    by blast
  from crypto_chrdev_ioctl_eq [OF assms(1,2) rq] rq el cs show ?thesis
    by simp
qed

text \<open>
  The theorem at a caller with a 16-byte key, against a device that assigns session
  identifier 7.
\<close>

theorem get_session_descriptor_stays_in_kernel_witness:
  "private_data open_guest = Some 1
   \<and> heap open_guest 1 = Some \<lparr>crdev = \<lparr>minor = 0\<rparr>, host_fd = 3\<rparr>
   \<and> session_at caller 4096 = Some caller_session
   \<and> unat (keylen caller_session) < unat (keylen caller_session + 1)
   \<and> fst (copy_from_user caller (key caller_session) (unat (keylen caller_session))) = 0
   \<and> (\<exists>sg m. ioctl_request linux_headers True caller \<lparr>crdev = \<lparr>minor = 0\<rparr>, host_fd = 3\<rparr>
                 (CIOCGSESSION linux_headers) 4096 (mem open_guest) = Submit sg m
           \<and> in_sg (element_of sg) = [Some Input_msg, Some Copied_session]
           \<and> mem_copied_session m = caller_session
           \<and> (\<exists>s'. crypto_chrdev_ioctl linux_headers assigning_device True caller
                      (CIOCGSESSION linux_headers) 4096 open_guest = Some (0, caller, s')
                    \<and> mem s' = m\<lparr>mem_copied_session := caller_session\<lparr>ses := 7\<rparr>\<rparr>))"
proof -
  from get_session_descriptor_stays_in_kernel
         [OF open_guest_file(1,2) caller_copies(1) TrueI caller_copies(2,3), of linux_headers]
  obtain sg m
    where rq: "ioctl_request linux_headers True caller \<lparr>crdev = \<lparr>minor = 0\<rparr>, host_fd = 3\<rparr>
                 (CIOCGSESSION linux_headers) 4096 (mem open_guest) = Submit sg m"
      and el: "in_sg (element_of sg) = [Some Input_msg, Some Copied_session]"
      and cs: "mem_copied_session m = caller_session"
      and call: "crypto_chrdev_ioctl linux_headers assigning_device True caller
                   (CIOCGSESSION linux_headers) 4096 open_guest =
                  (case assigning_device (virtqueue_add_sgs (vq open_guest) sg, m) of
                     None \<Rightarrow> None
                   | Some (q1, m1) \<Rightarrow>
                       (case used q1 of
                          [] \<Rightarrow> None
                        | e # es \<Rightarrow>
                            Some (0, caller,
                                  open_guest\<lparr>heap := (heap open_guest)(1 \<mapsto>
                                      \<lparr>crdev = \<lparr>minor = 0\<rparr>, host_fd = 3\<rparr>\<lparr>host_fd := mem_host_fd m1\<rparr>),
                                    vq := q1\<lparr>used := es\<rparr>, mem := m1\<rparr>)))"
    by blast
  have "\<exists>s'. crypto_chrdev_ioctl linux_headers assigning_device True caller
               (CIOCGSESSION linux_headers) 4096 open_guest = Some (0, caller, s')
             \<and> mem s' = m\<lparr>mem_copied_session := caller_session\<lparr>ses := 7\<rparr>\<rparr>"
    using call cs by (simp add: open_guest_file(3) assigning_device_eq)
  with rq el cs open_guest_file(1,2) caller_copies show ?thesis
    by blast
qed

text \<open>
  C3 as stated fails twice. A device assigns session identifier 7 in the descriptor
  it was given: on return the driver's copy holds 7 and the caller's descriptor still
  holds 0. And a caller whose two copy sources are readable but whose key length is
  \<^verbatim>\<open>0xFFFFFFFF\<close> gets no request submitted at all: the buffer of \<^verbatim>\<open>keylen + 1 = 0\<close> bytes
  cannot take the key.
\<close>

theorem get_session_not_copied_back:
  "(case crypto_chrdev_ioctl linux_headers assigning_device True caller
           (CIOCGSESSION linux_headers) 4096 open_guest of
      None \<Rightarrow> False
    | Some (r, us', s') \<Rightarrow>
        r = 0 \<and> ses (mem_copied_session (mem s')) = 7
        \<and> map_option ses (session_at us' 4096) = Some 0)
   \<and> get_session_copies_succeed long_key_caller 4096
   \<and> request_element (ioctl_request linux_headers True long_key_caller
        \<lparr>crdev = \<lparr>minor = 0\<rparr>, host_fd = 3\<rparr> (CIOCGSESSION linux_headers) 4096 (mem open_guest))
      = None"
proof -
  from ioctl_request_get_session [OF caller_copies(1) TrueI caller_copies(2,3), of linux_headers
         "\<lparr>crdev = \<lparr>minor = 0\<rparr>, host_fd = 3\<rparr>" "mem open_guest"]
  obtain sg m
    where rq: "ioctl_request linux_headers True caller \<lparr>crdev = \<lparr>minor = 0\<rparr>, host_fd = 3\<rparr>
                 (CIOCGSESSION linux_headers) 4096 (mem open_guest) = Submit sg m"
    by blast
  have first: "(case crypto_chrdev_ioctl linux_headers assigning_device True caller
           (CIOCGSESSION linux_headers) 4096 open_guest of
      None \<Rightarrow> False
    | Some (r, us', s') \<Rightarrow>
        r = 0 \<and> ses (mem_copied_session (mem s')) = 7
        \<and> map_option ses (session_at us' 4096) = Some 0)"
  proof -
    have "crypto_chrdev_ioctl linux_headers assigning_device True caller
            (CIOCGSESSION linux_headers) 4096 open_guest
          = Some (0, caller,
                  open_guest\<lparr>heap := (heap open_guest)(1 \<mapsto>
                               \<lparr>crdev = \<lparr>minor = 0\<rparr>, host_fd = 3\<rparr>\<lparr>host_fd := mem_host_fd m\<rparr>),
                             vq := idle_vq\<lparr>used := []\<rparr>,
                             mem := m\<lparr>mem_copied_session := (mem_copied_session m)\<lparr>ses := 7\<rparr>\<rparr>\<rparr>)"
      by (simp add: crypto_chrdev_ioctl_eq [OF open_guest_file(1,2) rq] open_guest_file(3)
            assigning_device_eq)
    then show ?thesis
      by (simp add: caller_def caller_session_def)
  qed
  have copies: "get_session_copies_succeed long_key_caller 4096"
    by (simp add: get_session_copies_succeed_def long_key_caller_def copy_from_user_def)
  have "ioctl_request linux_headers True long_key_caller
          \<lparr>crdev = \<lparr>minor = 0\<rparr>, host_fd = 3\<rparr> (CIOCGSESSION linux_headers) 4096 (mem open_guest)
        = Oops"
    by (rule ioctl_request_oops [where u = "\<lparr>keylen = 0xFFFFFFFF, key = User 8192, ses = 0\<rparr>"])
       (simp_all add: long_key_caller_def)
  with first copies show ?thesis
    by (simp add: request_element_def)
qed

text \<open>
  C4. The session-teardown request. Whatever the caller, the context and the argument,
  the driver puts the header and the two diagnostic buffers on the queue: the session
  identifier behind \<^verbatim>\<open>arg\<close> is never read and no region carries it. The dispatcher takes
  the identifier from \<^verbatim>\<open>in_sg[0]\<close>, which is the driver's \<^verbatim>\<open>input_msg\<close>, and its status
  word from \<^verbatim>\<open>in_sg[1]\<close>, which was not sent; what it leaves in memory on the driver's
  own request is undefined.
\<close>

theorem free_session_id_not_transmitted:
  "request_element (ioctl_request linux_headers kz us crof (CIOCFSESSION linux_headers) arg m0)
     = Some message_request_element
   \<and> out_sg message_request_element
       = [Some Syscall_type, Some Host_fd, Some Cmd, Some Output_msg]
   \<and> in_sg message_request_element = [Some Input_msg]
   \<and> iov_base (in_sg message_request_element) 0 = Some Input_msg
   \<and> iov_base (in_sg message_request_element) 1 = None
   \<and> crypto_chrdev_ioctl linux_headers (host_device linux_headers rd) kz us
        (CIOCFSESSION linux_headers) arg open_guest = None"
proof -
  from linux_free_session_request
         [of kz us "\<lparr>crdev = \<lparr>minor = 0\<rparr>, host_fd = 3\<rparr>" arg "mem open_guest" rd]
  obtain sg m
    where rq: "ioctl_request linux_headers kz us \<lparr>crdev = \<lparr>minor = 0\<rparr>, host_fd = 3\<rparr>
                 (CIOCFSESSION linux_headers) arg (mem open_guest) = Submit sg m"
      and un: "handle_syscall linux_headers rd (element_of sg) m = None"
    by blast
  from linux_free_session_request [of kz us crof arg m0 rd]
  have "request_element (ioctl_request linux_headers kz us crof (CIOCFSESSION linux_headers) arg m0)
          = Some message_request_element"
    by (auto simp: request_element_def)
  with crypto_chrdev_ioctl_host_undefined [OF open_guest_file(1,2) rq open_guest_file(4) un]
  show ?thesis
    by (simp add: message_request_element_def iov_base_def)
qed

text \<open>
  C5, as amended. Over a host whose OPEN tag is the guest's and an idle queue, open
  always returns, and it fails exactly when \<^verbatim>\<open>nonseekable_open\<close> fails (its error), no
  registered device has the minor number (\<^verbatim>\<open>-ENODEV\<close>), the context cannot be allocated
  (\<^verbatim>\<open>-ENOMEM\<close>), or the handle the host wrote is negative (\<^verbatim>\<open>-ENODEV\<close>). In every other
  case it succeeds and the context at the allocated address holds the device and the
  non-negative handle. The dispatcher's OPEN branch is defined for every result of the
  real device's open and reports it only through the handle it writes.
\<close>

theorem crypto_chrdev_open_fails_exactly:
  assumes agree: "VIRTIO_CRYPTODEV_SYSCALL_OPEN k = VIRTIO_CRYPTODEV_SYSCALL_TYPE_OPEN k"
      and idle: "avail (vq s) = []"
  shows "\<exists>r s'. crypto_chrdev_open k (host_device k rd) nonseekable kz iminor s = Some (r, s')
           \<and> (r < 0) = (nonseekable < 0 \<or> get_crypto_dev_by_minor (devs s) iminor = None
                          \<or> kz = None \<or> real_open rd < 0)
           \<and> r = (if nonseekable < 0 then nonseekable
                   else if get_crypto_dev_by_minor (devs s) iminor = None then - ENODEV
                   else if kz = None then - ENOMEM
                   else if real_open rd < 0 then - ENODEV
                   else nonseekable)
           \<and> (if r < 0 then True
               else \<exists>p d. kz = Some p \<and> get_crypto_dev_by_minor (devs s) iminor = Some d
                      \<and> private_data s' = Some p
                      \<and> heap s' p = Some \<lparr>crdev = d, host_fd = real_open rd\<rparr>
                      \<and> 0 \<le> real_open rd)
           \<and> handle_syscall k rd (element_of (fst (open_request k (mem s))))
                 (snd (open_request k (mem s)))
               = Some ((snd (open_request k (mem s)))\<lparr>mem_host_fd := real_open rd\<rparr>, [Real_open])"
proof -
  let ?sg = "fst (open_request k (mem s))" and ?m = "snd (open_request k (mem s))"
  have ty: "mem_syscall_type ?m = VIRTIO_CRYPTODEV_SYSCALL_TYPE_OPEN k"
    using agree by (simp add: open_request_def)
  have h: "handle_syscall k rd (element_of ?sg) ?m
             = Some (?m\<lparr>mem_host_fd := real_open rd\<rparr>, [Real_open])"
    using handle_open_element [OF ty, of rd] by (simp add: open_element)
  note call = crypto_chrdev_open_host [OF agree idle, of rd]
  show ?thesis
    using h call
    by (cases "get_crypto_dev_by_minor (devs s) iminor"; cases kz)
       (auto simp: crypto_chrdev_open_def ENODEV_def ENOMEM_def split: prod.splits)
qed

theorem crypto_chrdev_open_fails_exactly_witness:
  "VIRTIO_CRYPTODEV_SYSCALL_OPEN linux_headers = VIRTIO_CRYPTODEV_SYSCALL_TYPE_OPEN linux_headers
   \<and> avail (vq fresh_guest) = []
   \<and> (\<exists>s'. crypto_chrdev_open linux_headers (host_device linux_headers good_device) 0 (Some 1) 0
              fresh_guest = Some (0, s')
            \<and> private_data s' = Some 1
            \<and> heap s' 1 = Some \<lparr>crdev = \<lparr>minor = 0\<rparr>, host_fd = 3\<rparr>)"
proof -
  have agree: "VIRTIO_CRYPTODEV_SYSCALL_OPEN linux_headers
                 = VIRTIO_CRYPTODEV_SYSCALL_TYPE_OPEN linux_headers"
    by (simp add: linux_headers_def)
  have idle: "avail (vq fresh_guest) = []"
    by (simp add: fresh_guest_def idle_vq_def)
  have d: "get_crypto_dev_by_minor (devs fresh_guest) 0 = Some \<lparr>minor = 0\<rparr>"
    by (simp add: fresh_guest_def)
  have o: "real_open good_device = 3"
    by (simp add: good_device_def)
  from crypto_chrdev_open_fails_exactly [OF agree idle, of good_device 0 "Some 1" 0] d o
  have "\<exists>s'. crypto_chrdev_open linux_headers (host_device linux_headers good_device) 0 (Some 1) 0
              fresh_guest = Some (0, s')
            \<and> private_data s' = Some 1
            \<and> heap s' 1 = Some \<lparr>crdev = \<lparr>minor = 0\<rparr>, host_fd = 3\<rparr>"
    by auto
  with agree idle show ?thesis by blast
qed

text \<open>
  C5 as stated fails: with the device registered and a real device that would hand
  out handle 3, open fails with \<^verbatim>\<open>-ENOMEM\<close> (\<open>-12\<close>) when the context cannot be
  allocated.
\<close>

theorem crypto_chrdev_open_enomem:
  "crypto_chrdev_open linux_headers (host_device linux_headers good_device) 0 None 0 fresh_guest
     = Some (- 12, fresh_guest)
   \<and> get_crypto_dev_by_minor (devs fresh_guest) 0 = Some \<lparr>minor = 0\<rparr>
   \<and> 0 \<le> real_open good_device"
  by (simp add: crypto_chrdev_open_def fresh_guest_def good_device_def ENOMEM_def)

text \<open>
  C6. Every descriptor set the host dispatcher pops is pushed back exactly once and a
  notification follows: whatever the queue, the popped set, the shared memory and the
  real device (so whatever the system-call tag, the command and the result or error
  of the real device's call), the handler's calls on the queue are one push of the
  popped set, then one notification; the set leaves the available ring and joins the
  used ring, and the third component is what the two switches did in between.
\<close>

theorem vq_handle_output_returns_element:
  assumes "virtqueue_pop q = Some (elem, q1)"
  shows "vq_handle_output k rd q m
           = (virtqueue_push q1 elem, [Push elem, Notify], handle_syscall k rd elem m)
         \<and> used (virtqueue_push q1 elem) = used q @ [elem]
         \<and> elem # avail (virtqueue_push q1 elem) = avail q"
  using assms
  by (auto simp: vq_handle_output_def virtqueue_pop_def virtqueue_push_def split: list.splits)

text \<open>
  The theorem on a real device whose every call fails, at the session-creation request
  the guest driver itself submits and at one laid out as the dispatcher reads it, where
  the failure of the real call ends up in the status buffer.
\<close>

theorem vq_handle_output_returns_element_witness:
  "virtqueue_pop (idle_vq\<lparr>avail := [session_request_element]\<rparr>)
     = Some (session_request_element, idle_vq)
   \<and> vq_handle_output linux_headers bad_device (idle_vq\<lparr>avail := [session_request_element]\<rparr>)
        get_session_mem
     = (idle_vq\<lparr>used := [session_request_element]\<rparr>,
        [Push session_request_element, Notify],
        handle_syscall linux_headers bad_device session_request_element get_session_mem)
   \<and> virtqueue_pop (idle_vq\<lparr>avail := [host_session_element]\<rparr>)
     = Some (host_session_element, idle_vq)
   \<and> vq_handle_output linux_headers bad_device (idle_vq\<lparr>avail := [host_session_element]\<rparr>)
        (get_session_mem\<lparr>mem_input_msg := replicate 100 0\<rparr>)
     = (idle_vq\<lparr>used := [host_session_element]\<rparr>,
        [Push host_session_element, Notify],
        Some (get_session_mem
                \<lparr>mem_input_msg := [255, 255, 255, 255] @ replicate 96 0,
                  mem_copied_session := \<lparr>keylen = 0, key = Region Session_key, ses = 0\<rparr>\<rparr>,
              [Real_ioctl 3 (CIOCGSESSION linux_headers) Copied_session]))"
proof -
  have pop: "virtqueue_pop (idle_vq\<lparr>avail := [session_request_element]\<rparr>)
               = Some (session_request_element, idle_vq)"
    by (simp add: virtqueue_pop_def idle_vq_def)
  have pop': "virtqueue_pop (idle_vq\<lparr>avail := [host_session_element]\<rparr>)
                = Some (host_session_element, idle_vq)"
    by (simp add: virtqueue_pop_def idle_vq_def)
  from vq_handle_output_returns_element [OF pop, of linux_headers bad_device get_session_mem]
    vq_handle_output_returns_element [OF pop', of linux_headers bad_device
      "get_session_mem\<lparr>mem_input_msg := replicate 100 0\<rparr>"]
    pop pop'
  show ?thesis
    by (simp add: virtqueue_push_def idle_vq_def handle_get_session_failing)
qed

text \<open>
  C7. At an ioctl whose command is none of the three known ones, on an open file, the
  driver builds the common header alone (three guest-written regions, none
  host-writable) and hands exactly that request to the device: against every device
  the call returns when, and only when, the device gives a completed descriptor set
  back, and then returns 0 with the caller's address space as it was. Over the host of
  this repository (IOCTL tag shared and distinct from the other two, queue idle) the
  dispatcher makes no call of the real device, leaves the shared memory as it was,
  pushes the set back and notifies, and the call returns 0 with the context unchanged.
\<close>

theorem unknown_command_passes_through:
  assumes "private_data s = Some p" and "heap s p = Some crof"
      and "c \<noteq> CIOCGSESSION k" and "c \<noteq> CIOCFSESSION k" and "c \<noteq> CIOCCRYPT k"
      and "VIRTIO_CRYPTODEV_SYSCALL_IOCTL k = VIRTIO_CRYPTODEV_SYSCALL_TYPE_IOCTL k"
      and "VIRTIO_CRYPTODEV_SYSCALL_TYPE_IOCTL k \<noteq> VIRTIO_CRYPTODEV_SYSCALL_TYPE_OPEN k"
      and "VIRTIO_CRYPTODEV_SYSCALL_TYPE_IOCTL k \<noteq> VIRTIO_CRYPTODEV_SYSCALL_TYPE_CLOSE k"
      and idle: "avail (vq s) = []"
  shows "\<exists>sg m. ioctl_request k kz us crof c arg (mem s) = Submit sg m
           \<and> element_of sg = \<lparr>out_sg = [Some Syscall_type, Some Host_fd, Some Cmd], in_sg = []\<rparr>
           \<and> (\<forall>dev. crypto_chrdev_ioctl k dev kz us c arg s =
                  (case dev (virtqueue_add_sgs (vq s) sg, m) of
                     None \<Rightarrow> None
                   | Some (q1, m1) \<Rightarrow>
                       (case used q1 of
                          [] \<Rightarrow> None
                        | e # es \<Rightarrow>
                            Some (0, us,
                                  s\<lparr>heap := (heap s)(p \<mapsto> crof\<lparr>host_fd := mem_host_fd m1\<rparr>),
                                    vq := q1\<lparr>used := es\<rparr>, mem := m1\<rparr>))))
           \<and> vq_handle_output k rd (virtqueue_add_sgs (vq s) sg) m
               = ((vq s)\<lparr>used := used (vq s) @ [element_of sg]\<rparr>,
                  [Push (element_of sg), Notify], Some (m, []))
           \<and> crypto_chrdev_ioctl k (host_device k rd) kz us c arg s
               = Some (0, us,
                       s\<lparr>vq := (vq s)\<lparr>used := tl (used (vq s) @ [element_of sg])\<rparr>, mem := m\<rparr>)"
proof -
  from ioctl_request_unknown [OF assms(3-5), of kz us crof arg "mem s"] obtain sg m
    where rq: "ioctl_request k kz us crof c arg (mem s) = Submit sg m"
      and el: "element_of sg = \<lparr>out_sg = [Some Syscall_type, Some Host_fd, Some Cmd], in_sg = []\<rparr>"
      and hdr: "mem_syscall_type m = VIRTIO_CRYPTODEV_SYSCALL_IOCTL k"
               "mem_host_fd m = host_fd crof" "mem_cmd m = c"
    by blast
  have h: "handle_syscall k rd (element_of sg) m = Some (m, [])"
    using handle_unknown_command [of m k rd] assms(3-8) hdr el by simp
  have out: "vq_handle_output k rd (virtqueue_add_sgs (vq s) sg) m
               = ((vq s)\<lparr>used := used (vq s) @ [element_of sg]\<rparr>,
                  [Push (element_of sg), Notify], Some (m, []))"
    using h by (simp add: vq_handle_output_idle [OF idle])
  have ctx: "(heap s)(p \<mapsto> crof\<lparr>host_fd := host_fd crof\<rparr>) = heap s"
    using assms(2) by (simp add: map_upd_triv)
  have host: "crypto_chrdev_ioctl k (host_device k rd) kz us c arg s
               = Some (0, us,
                       s\<lparr>vq := (vq s)\<lparr>used := tl (used (vq s) @ [element_of sg])\<rparr>, mem := m\<rparr>)"
    using assms(1,2) rq h hdr(2) ctx
    by (simp add: crypto_chrdev_ioctl_def sync_call_host [OF idle])
  from crypto_chrdev_ioctl_eq [OF assms(1,2) rq] rq el out host show ?thesis
    by simp
qed

theorem unknown_command_passes_through_witness:
  "private_data open_guest = Some 1
   \<and> heap open_guest 1 = Some \<lparr>crdev = \<lparr>minor = 0\<rparr>, host_fd = 3\<rparr>
   \<and> (\<exists>sg m. ioctl_request linux_headers True caller \<lparr>crdev = \<lparr>minor = 0\<rparr>, host_fd = 3\<rparr> 5 0
                 (mem open_guest) = Submit sg m
           \<and> element_of sg = \<lparr>out_sg = [Some Syscall_type, Some Host_fd, Some Cmd], in_sg = []\<rparr>
           \<and> vq_handle_output linux_headers good_device (virtqueue_add_sgs (vq open_guest) sg) m
               = ((vq open_guest)\<lparr>used := used (vq open_guest) @ [element_of sg]\<rparr>,
                  [Push (element_of sg), Notify], Some (m, []))
           \<and> crypto_chrdev_ioctl linux_headers (host_device linux_headers good_device) True
                caller 5 0 open_guest
               = Some (0, caller,
                       open_guest\<lparr>vq := (vq open_guest)\<lparr>used :=
                                     tl (used (vq open_guest) @ [element_of sg])\<rparr>, mem := m\<rparr>))"
proof -
  have c: "5 \<noteq> CIOCGSESSION linux_headers" "5 \<noteq> CIOCFSESSION linux_headers"
          "5 \<noteq> CIOCCRYPT linux_headers"
    by (simp_all add: linux_headers_def)
  have tags: "VIRTIO_CRYPTODEV_SYSCALL_IOCTL linux_headers
                = VIRTIO_CRYPTODEV_SYSCALL_TYPE_IOCTL linux_headers"
             "VIRTIO_CRYPTODEV_SYSCALL_TYPE_IOCTL linux_headers
                \<noteq> VIRTIO_CRYPTODEV_SYSCALL_TYPE_OPEN linux_headers"
             "VIRTIO_CRYPTODEV_SYSCALL_TYPE_IOCTL linux_headers
                \<noteq> VIRTIO_CRYPTODEV_SYSCALL_TYPE_CLOSE linux_headers"
    by (simp_all add: linux_headers_def)
  from unknown_command_passes_through
         [OF open_guest_file(1,2) c tags open_guest_file(4), of True caller 0 good_device]
    open_guest_file(1,2)
  show ?thesis by blast
qed

text \<open>
  C8. At every release of an open file the driver builds a CLOSE request of two
  guest-written regions (the tag and the stored handle) and no host-writable one, and
  hands exactly that request to the device: against every device, release returns
  when, and only when, the device gives a completed descriptor set back, whatever else
  the device did, and then returns 0 with the context freed. Over the host of this
  repository (CLOSE tag shared, queue idle) that holds for every real device: the
  dispatcher closes the stored handle, ignores the result, writes nothing and pushes
  the set back.
\<close>

theorem crypto_chrdev_release_frees:
  assumes "private_data s = Some p" and "heap s p = Some crof"
      and rq: "release_request k crof (mem s) = (sg, m)"
  shows "element_of sg = \<lparr>out_sg = [Some Syscall_type, Some Host_fd], in_sg = []\<rparr>
         \<and> mem_syscall_type m = VIRTIO_CRYPTODEV_SYSCALL_CLOSE k
         \<and> mem_host_fd m = host_fd crof
         \<and> (\<forall>dev. crypto_chrdev_release k dev s =
                (case dev (virtqueue_add_sgs (vq s) sg, m) of
                   None \<Rightarrow> None
                 | Some (q1, m1) \<Rightarrow>
                     (case used q1 of
                        [] \<Rightarrow> None
                      | e # es \<Rightarrow>
                          Some (0, s\<lparr>heap := (heap s)(p := None), vq := q1\<lparr>used := es\<rparr>,
                                     mem := m1\<rparr>))))
         \<and> (VIRTIO_CRYPTODEV_SYSCALL_CLOSE k = VIRTIO_CRYPTODEV_SYSCALL_TYPE_CLOSE k
            \<and> VIRTIO_CRYPTODEV_SYSCALL_TYPE_CLOSE k \<noteq> VIRTIO_CRYPTODEV_SYSCALL_TYPE_OPEN k
            \<and> avail (vq s) = []
            \<longrightarrow> (\<forall>rd. vq_handle_output k rd (virtqueue_add_sgs (vq s) sg) m
                      = ((vq s)\<lparr>used := used (vq s) @ [element_of sg]\<rparr>,
                         [Push (element_of sg), Notify],
                         Some (m, [Real_close (host_fd crof)]))
                    \<and> crypto_chrdev_release k (host_device k rd) s
                      = Some (0, s\<lparr>heap := (heap s)(p := None),
                                   vq := (vq s)\<lparr>used := tl (used (vq s) @ [element_of sg])\<rparr>,
                                   mem := m\<rparr>)))"
proof -
  have el: "element_of sg = \<lparr>out_sg = [Some Syscall_type, Some Host_fd], in_sg = []\<rparr>"
    using release_element [of k crof "mem s"] rq by simp
  have ty: "mem_syscall_type m = VIRTIO_CRYPTODEV_SYSCALL_CLOSE k"
    and fd: "mem_host_fd m = host_fd crof"
    using rq by (auto simp: release_request_def)
  have host: "vq_handle_output k rd (virtqueue_add_sgs (vq s) sg) m
                = ((vq s)\<lparr>used := used (vq s) @ [element_of sg]\<rparr>,
                   [Push (element_of sg), Notify], Some (m, [Real_close (host_fd crof)]))
              \<and> crypto_chrdev_release k (host_device k rd) s
                = Some (0, s\<lparr>heap := (heap s)(p := None),
                             vq := (vq s)\<lparr>used := tl (used (vq s) @ [element_of sg])\<rparr>,
                             mem := m\<rparr>)"
    if agree: "VIRTIO_CRYPTODEV_SYSCALL_CLOSE k = VIRTIO_CRYPTODEV_SYSCALL_TYPE_CLOSE k"
      and distinct: "VIRTIO_CRYPTODEV_SYSCALL_TYPE_CLOSE k \<noteq> VIRTIO_CRYPTODEV_SYSCALL_TYPE_OPEN k"
      and idle: "avail (vq s) = []" for rd
  proof -
    have h: "handle_syscall k rd (element_of sg) m = Some (m, [Real_close (host_fd crof)])"
      using handle_close_element [of m k rd] ty fd agree distinct el by simp
    show ?thesis
      using h assms
      by (simp add: vq_handle_output_idle [OF idle] crypto_chrdev_release_def
            sync_call_host [OF idle])
  qed
  from crypto_chrdev_release_eq [OF assms] el ty fd host show ?thesis
    by blast
qed

text \<open>The theorem on a real device whose close fails.\<close>

theorem crypto_chrdev_release_frees_witness:
  "private_data open_guest = Some 1
   \<and> heap open_guest 1 = Some \<lparr>crdev = \<lparr>minor = 0\<rparr>, host_fd = 3\<rparr>
   \<and> real_close bad_device 3 < 0
   \<and> (\<exists>s'. crypto_chrdev_release linux_headers (host_device linux_headers bad_device) open_guest
              = Some (0, s')
            \<and> heap s' 1 = None)"
proof -
  have rq: "release_request linux_headers \<lparr>crdev = \<lparr>minor = 0\<rparr>, host_fd = 3\<rparr> (mem open_guest)
              = (fst (release_request linux_headers \<lparr>crdev = \<lparr>minor = 0\<rparr>, host_fd = 3\<rparr>
                        (mem open_guest)),
                 snd (release_request linux_headers \<lparr>crdev = \<lparr>minor = 0\<rparr>, host_fd = 3\<rparr>
                        (mem open_guest)))"
    by simp
  have tags: "VIRTIO_CRYPTODEV_SYSCALL_CLOSE linux_headers
                = VIRTIO_CRYPTODEV_SYSCALL_TYPE_CLOSE linux_headers
              \<and> VIRTIO_CRYPTODEV_SYSCALL_TYPE_CLOSE linux_headers
                  \<noteq> VIRTIO_CRYPTODEV_SYSCALL_TYPE_OPEN linux_headers
              \<and> avail (vq open_guest) = []"
    by (simp add: linux_headers_def open_guest_file(4))
  from crypto_chrdev_release_frees [OF open_guest_file(1,2) rq] tags
  have "crypto_chrdev_release linux_headers (host_device linux_headers bad_device) open_guest
          = Some (0, open_guest\<lparr>heap := (heap open_guest)(1 := None),
                     vq := (vq open_guest)\<lparr>used := tl (used (vq open_guest)
                        @ [element_of (fst (release_request linux_headers
                              \<lparr>crdev = \<lparr>minor = 0\<rparr>, host_fd = 3\<rparr> (mem open_guest)))])\<rparr>,
                     mem := snd (release_request linux_headers
                              \<lparr>crdev = \<lparr>minor = 0\<rparr>, host_fd = 3\<rparr> (mem open_guest))\<rparr>)"
    by blast
  then have "\<exists>s'. crypto_chrdev_release linux_headers (host_device linux_headers bad_device)
                    open_guest = Some (0, s') \<and> heap s' 1 = None"
    by simp
  with open_guest_file(1,2) show ?thesis
    by (simp add: bad_device_def)
qed




text \<open>
  C10. Every read of the character device, with any buffer, count and file position,
  returns \<^verbatim>\<open>-EINVAL\<close> (\<open>-22\<close>) and transfers nothing: the caller's address space, the
  file position and the driver's state are as before.
\<close>

theorem crypto_chrdev_read_einval:
  "crypto_chrdev_read s us usrbuf cnt f_pos = (- 22, us, f_pos, s)"
  by (simp add: crypto_chrdev_read_def EINVAL_def)

end
